theory Spec2Isabelle
  imports Complex_Main "HOL-Library.Word" "HOL-Library.Sublist" "HOL-Library.AList"
begin

section \<open>JavaScript strings\<close>

text \<open>
  A JavaScript string is a sequence of 16-bit code units; \<open>length\<close> and
  \<open>substring\<close> count code units. String literals of the source that are pure ASCII
  are written with \<open>lit\<close>; the cross mark of the log lines is the single code unit
  U+274C.
\<close>

type_synonym code_unit = "16 word"

type_synonym jsstring = "code_unit list"

definition lit :: "string \<Rightarrow> jsstring" where
  "lit s = map of_char s"

definition cross_mark :: jsstring where
  "cross_mark = [0x274C]"

text \<open>\<open>s.substring(0, n)\<close> for a non-negative \<open>n\<close>: the first \<open>n\<close> code units, or all of
  \<open>s\<close> when it is shorter.\<close>

definition substring0 :: "jsstring \<Rightarrow> nat \<Rightarrow> jsstring" where
  "substring0 s n = take n s"

text \<open>
  Template literals interpolate numbers with \<open>Number::toString\<close>. The numbers
  interpolated by the validators are HTTP status codes and the two integer constants of
  \<open>TEST_CONFIG\<close>; for an integer of magnitude below \<open>10^21\<close> the result is its decimal
  notation.
\<close>

fun decimal :: "nat \<Rightarrow> jsstring" where
  "decimal n = (if n < 10 then [0x30 + of_nat n]
                else decimal (n div 10) @ [0x30 + of_nat (n mod 10)])"

declare decimal.simps [simp del]

definition number_to_string :: "int \<Rightarrow> jsstring" where
  "number_to_string n = (if n < 0 then lit ''-'' @ decimal (nat (- n)) else decimal (nat n))"

section \<open>Constants (src/constants)\<close>

definition HTTP_STATUS_OK :: int where
  "HTTP_STATUS_OK = 200"

definition HTTP_STATUS_BAD_REQUEST :: int where
  "HTTP_STATUS_BAD_REQUEST = 400"

definition MAX_RESPONSE_TIME_MS :: int where
  "MAX_RESPONSE_TIME_MS = 500"

definition LOG_BODY_PREVIEW_LENGTH :: nat where
  "LOG_BODY_PREVIEW_LENGTH = 200"

section \<open>JavaScript values and exceptions\<close>

text \<open>
  The values that occur in the validators: what \<open>JSON.parse\<close> can return, the
  booleans returned by the check predicates, and \<open>undefined\<close> for a missing property.
  A number holds the exact value of its JSON literal; \<open>JSON.parse\<close> rounds it to the
  nearest double (ties to even), and the only thing the validators ask of a number is
  whether that double is zero, which is the case exactly for a magnitude of at most
  \<open>2^-1075\<close>, half of the least positive double.
\<close>

datatype jsval =
    JUndefined
  | JNull
  | JBool bool
  | JNumber real
  | JString jsstring
  | JArray "jsval list"
  | JObject "(jsstring \<times> jsval) list"

datatype exn = SyntaxError | TypeError

definition rounds_to_zero :: "real \<Rightarrow> bool" where
  "rounds_to_zero x = (\<bar>x\<bar> \<le> 1 / 2 ^ 1075)"

fun ToBoolean :: "jsval \<Rightarrow> bool" where
  "ToBoolean JUndefined = False"
| "ToBoolean JNull = False"
| "ToBoolean (JBool b) = b"
| "ToBoolean (JNumber x) = (\<not> rounds_to_zero x)"
| "ToBoolean (JString s) = (s \<noteq> [])"
| "ToBoolean (JArray xs) = True"
| "ToBoolean (JObject ms) = True"

text \<open>
  Property access \<open>v.k\<close> for a name \<open>k\<close> that no built-in prototype defines (the
  validators read \<open>error\<close> and \<open>message\<close>): \<open>TypeError\<close> on \<open>null\<close> and
  \<open>undefined\<close>, the own property of an object, \<open>undefined\<close> otherwise. The members
  of an object are kept in the order of the JSON text; of two members with one name the
  later one is the property.
\<close>

fun get_property :: "jsval \<Rightarrow> jsstring \<Rightarrow> exn + jsval" where
  "get_property JUndefined k = Inl TypeError"
| "get_property JNull k = Inl TypeError"
| "get_property (JObject ms) k =
     (case map_of (rev ms) k of None \<Rightarrow> Inr JUndefined | Some v \<Rightarrow> Inr v)"
| "get_property v k = Inr JUndefined"

section \<open>The response of the HTTP layer\<close>

text \<open>
  \<open>K6Response\<close> is k6's \<open>RefinedResponse<ResponseType | undefined>\<close>: the status is
  the integer HTTP status code, \<open>timings.duration\<close> a finite number of milliseconds,
  and the body a string, an \<open>ArrayBuffer\<close> or \<open>null\<close>, depending on the response
  type of the request. The validators read no other field.
\<close>

datatype response_body = BodyNull | BodyText jsstring | BodyBinary "8 word list"

record response_timings =
  duration :: real

record response =
  status :: int
  body :: response_body
  timings :: response_timings

text \<open>\<open>String(r.body)\<close>.\<close>

fun String_of :: "response_body \<Rightarrow> jsstring" where
  "String_of BodyNull = lit ''null''"
| "String_of (BodyText s) = s"
| "String_of (BodyBinary bs) = lit ''[object ArrayBuffer]''"

text \<open>The truthiness of \<open>r.body\<close>, as tested by \<open>response.body ? ... : ...\<close>.\<close>

fun body_truthy :: "response_body \<Rightarrow> bool" where
  "body_truthy BodyNull = False"
| "body_truthy (BodyText s) = (s \<noteq> [])"
| "body_truthy (BodyBinary bs) = True"

section \<open>What a call emits\<close>

text \<open>
  The validators write to the four metrics of \<open>MetricsService\<close>, which is the only
  mutable state of the program they touch, and they emit two kinds of output to the k6
  runtime: the result of each named check, and lines on the error console. The metrics
  state is passed in and returned; the outputs of a call are returned as a list, in the
  order in which they are emitted.
\<close>

datatype event = CheckSample jsstring bool | ConsoleError jsstring

section \<open>MetricsService (src/services/metrics.service.ts)\<close>

text \<open>
  The four custom metrics \<open>errors\<close>, \<open>success\<close>, \<open>api_duration\<close> and
  \<open>failed_requests\<close>. Each \<open>add\<close> appends one sample to the series of its metric; a
  \<open>Rate\<close> takes booleans, a \<open>Trend\<close> and a \<open>Counter\<close> take numbers, and the value of
  the counter is the sum of its samples.
\<close>

record MetricsService =
  errorRate :: "bool list"
  successRate :: "bool list"
  apiDuration :: "real list"
  failedRequests :: "real list"

definition recordError :: "bool \<Rightarrow> MetricsService \<Rightarrow> MetricsService" where
  "recordError isError m = m\<lparr>errorRate := errorRate m @ [isError]\<rparr>"

definition recordSuccess :: "bool \<Rightarrow> MetricsService \<Rightarrow> MetricsService" where
  "recordSuccess isSuccess m = m\<lparr>successRate := successRate m @ [isSuccess]\<rparr>"

definition recordApiDuration :: "real \<Rightarrow> MetricsService \<Rightarrow> MetricsService" where
  "recordApiDuration d m = m\<lparr>apiDuration := apiDuration m @ [d]\<rparr>"

definition incrementFailedRequests :: "MetricsService \<Rightarrow> MetricsService" where
  "incrementFailedRequests m = m\<lparr>failedRequests := failedRequests m @ [1]\<rparr>"

definition counter_value :: "real list \<Rightarrow> real" where
  "counter_value samples = sum_list samples"

section \<open>LoggerService.error (src/services/logger.service.ts)\<close>

text \<open>The optional context is \<open>None\<close> when the argument is omitted; an empty context is
  falsy and prints nothing.\<close>

definition LoggerService_error :: "jsstring \<Rightarrow> jsstring option \<Rightarrow> event list" where
  "LoggerService_error message context =
     (let contextStr =
            (case context of
               None \<Rightarrow> []
             | Some c \<Rightarrow> if c \<noteq> [] then lit '' ['' @ c @ lit '']'' else [])
      in [ConsoleError (contextStr @ lit '' '' @ cross_mark @ lit '' '' @ message)])"

section \<open>The check built-in of k6 and object literals\<close>

text \<open>
  An object literal with computed keys: a key that is already present keeps its place
  and takes the new value, a new key is added at the end. (Keys that are array indices
  would be enumerated first; every key built by the validators contains a colon.)
\<close>

definition object_literal :: "(jsstring \<times> 'a) list \<Rightarrow> (jsstring \<times> 'a) list" where
  "object_literal props = foldl (\<lambda>obj (k, v). AList.update k v obj) [] props"

text \<open>
  \<open>check(val, sets)\<close> of the k6 runtime, called from the code of a virtual user: for
  each key of \<open>sets\<close> in turn, the function is called with \<open>val\<close>, its result is
  converted to a boolean, one sample is emitted for the check of that name, and a single
  failure makes the result \<open>false\<close>. A function that throws counts as a failed check,
  and the exception is thrown on to the caller once its sample has been emitted.
\<close>

type_synonym check_fn = "response \<Rightarrow> exn + jsval"

fun check_from :: "bool \<Rightarrow> response \<Rightarrow> (jsstring \<times> check_fn) list \<Rightarrow> (exn + bool) \<times> event list" where
  "check_from succ r [] = (Inr succ, [])"
| "check_from succ r ((name, f) # rest) =
     (case f r of
        Inl e \<Rightarrow> (Inl e, [CheckSample name False])
      | Inr v \<Rightarrow>
          (case check_from (succ \<and> ToBoolean v) r rest of
             (res, evs) \<Rightarrow> (res, CheckSample name (ToBoolean v) # evs)))"

definition check :: "response \<Rightarrow> (jsstring \<times> check_fn) list \<Rightarrow> (exn + bool) \<times> event list" where
  "check r sets = check_from True r sets"

section \<open>JSON.parse\<close>

text \<open>
  \<open>JSON.parse\<close> of the language, by the JSON grammar (ECMA-404): the text is cut into
  tokens, and the tokens are read by a stack machine. A text outside the grammar is a
  \<open>SyntaxError\<close>.
\<close>

definition is_ws :: "code_unit \<Rightarrow> bool" where
  "is_ws c = (c = 0x09 \<or> c = 0x0A \<or> c = 0x0D \<or> c = 0x20)"

definition is_digit :: "code_unit \<Rightarrow> bool" where
  "is_digit c = (0x30 \<le> c \<and> c \<le> 0x39)"

definition is_lower :: "code_unit \<Rightarrow> bool" where
  "is_lower c = (0x61 \<le> c \<and> c \<le> 0x7A)"

text \<open>The code units of a number: digits, minus, plus, the point, \<open>e\<close> and \<open>E\<close>.\<close>

definition is_number_char :: "code_unit \<Rightarrow> bool" where
  "is_number_char c =
     (is_digit c \<or> c = 0x2D \<or> c = 0x2B \<or> c = 0x2E \<or> c = 0x65 \<or> c = 0x45)"

definition hex_val :: "code_unit \<Rightarrow> nat option" where
  "hex_val c =
     (if is_digit c then Some (unat c - 48)
      else if 0x41 \<le> c \<and> c \<le> 0x46 then Some (unat c - 55)
      else if 0x61 \<le> c \<and> c \<le> 0x66 then Some (unat c - 87)
      else None)"

text \<open>The single-character escapes: quote, backslash, slash, b, f, n, r, t.\<close>

definition unescape :: "code_unit \<Rightarrow> code_unit option" where
  "unescape e =
     (if e = 0x22 then Some 0x22
      else if e = 0x5C then Some 0x5C
      else if e = 0x2F then Some 0x2F
      else if e = 0x62 then Some 0x08
      else if e = 0x66 then Some 0x0C
      else if e = 0x6E then Some 0x0A
      else if e = 0x72 then Some 0x0D
      else if e = 0x74 then Some 0x09
      else None)"

definition emit :: "code_unit \<Rightarrow> nat \<Rightarrow> (jsstring \<times> nat) option \<Rightarrow> (jsstring \<times> nat) option" where
  "emit x k res = (case res of None \<Rightarrow> None | Some (s, n) \<Rightarrow> Some (x # s, n + k))"

text \<open>
  The rest of a string literal, after its opening quote: the string it denotes and the
  number of code units up to and including the closing quote. Control characters below
  U+0020 may not occur unescaped.
\<close>

fun scan_string :: "code_unit list \<Rightarrow> (jsstring \<times> nat) option" where
  "scan_string [] = None"
| "scan_string (c # cs) =
     (if c = 0x22 then Some ([], 1)
      else if c = 0x5C then
        (case cs of
           [] \<Rightarrow> None
         | e # cs1 \<Rightarrow>
             if e = 0x75 then
               (case cs1 of
                  h1 # h2 # h3 # h4 # cs2 \<Rightarrow>
                    (case (hex_val h1, hex_val h2, hex_val h3, hex_val h4) of
                       (Some a, Some b, Some c, Some d) \<Rightarrow>
                         emit (of_nat (((a * 16 + b) * 16 + c) * 16 + d)) 6 (scan_string cs2)
                     | _ \<Rightarrow> None)
                | _ \<Rightarrow> None)
             else
               (case unescape e of
                  None \<Rightarrow> None
                | Some x \<Rightarrow> emit x 2 (scan_string cs1)))
      else if c < 0x20 then None
      else emit c 1 (scan_string cs))"

definition digits_value :: "code_unit list \<Rightarrow> nat" where
  "digits_value ds = foldl (\<lambda>a d. 10 * a + (unat d - 48)) 0 ds"

text \<open>
  A number: an optional minus, an integer part without a leading zero (unless it is the
  single digit 0), an optional fraction of at least one digit, an optional exponent of
  at least one digit with an optional sign, and nothing after it.
\<close>

definition number_of :: "code_unit list \<Rightarrow> real option" where
  "number_of run =
     (let neg = (case run of [] \<Rightarrow> False | c # cs \<Rightarrow> c = 0x2D);
          r1 = (if neg then tl run else run);
          ip = takeWhile is_digit r1;
          r2 = dropWhile is_digit r1;
          int_ok = (case ip of [] \<Rightarrow> False | d # ds \<Rightarrow> if d = 0x30 then ds = [] else True);
          has_frac = (case r2 of [] \<Rightarrow> False | c # cs \<Rightarrow> c = 0x2E);
          fp = (if has_frac then takeWhile is_digit (tl r2) else []);
          r3 = (if has_frac then dropWhile is_digit (tl r2) else r2);
          frac_ok = (if has_frac then fp \<noteq> [] else True);
          has_exp = (case r3 of [] \<Rightarrow> False | c # cs \<Rightarrow> c = 0x65 \<or> c = 0x45);
          r4 = (if has_exp then tl r3 else r3);
          exp_neg = (has_exp \<and> (case r4 of [] \<Rightarrow> False | c # cs \<Rightarrow> c = 0x2D));
          exp_pos = (has_exp \<and> (case r4 of [] \<Rightarrow> False | c # cs \<Rightarrow> c = 0x2B));
          r5 = (if exp_neg \<or> exp_pos then tl r4 else r4);
          ep = (if has_exp then takeWhile is_digit r5 else []);
          r6 = (if has_exp then dropWhile is_digit r5 else r5);
          exp_ok = (if has_exp then ep \<noteq> [] else True);
          mantissa = real (digits_value ip) + real (digits_value fp) / 10 ^ length fp;
          scaled = (if exp_neg then mantissa / 10 ^ digits_value ep
                    else mantissa * 10 ^ digits_value ep)
      in if int_ok \<and> frac_ok \<and> exp_ok \<and> r6 = []
         then Some (if neg then - scaled else scaled)
         else None)"

definition literal_of :: "code_unit list \<Rightarrow> jsval option" where
  "literal_of run =
     (if run = lit ''true'' then Some (JBool True)
      else if run = lit ''false'' then Some (JBool False)
      else if run = lit ''null'' then Some JNull
      else None)"

datatype token = LBrace | RBrace | LBracket | RBracket | Colon | Comma | TValue jsval

definition push :: "token \<Rightarrow> token list option \<Rightarrow> token list option" where
  "push t res = (case res of None \<Rightarrow> None | Some ts \<Rightarrow> Some (t # ts))"

text \<open>
  The tokens of a text. A number is the longest run of number characters and a literal
  name the longest run of lower-case letters: where the grammar allows a value to end,
  only white space, a comma or a closing bracket can follow it.
\<close>

function lex :: "code_unit list \<Rightarrow> token list option" where
  "lex [] = Some []"
| "lex (c # cs) =
     (if is_ws c then lex cs
      else if c = 0x7B then push LBrace (lex cs)
      else if c = 0x7D then push RBrace (lex cs)
      else if c = 0x5B then push LBracket (lex cs)
      else if c = 0x5D then push RBracket (lex cs)
      else if c = 0x3A then push Colon (lex cs)
      else if c = 0x2C then push Comma (lex cs)
      else if c = 0x22 then
        (case scan_string cs of
           None \<Rightarrow> None
         | Some (s, n) \<Rightarrow> push (TValue (JString s)) (lex (drop n cs)))
      else if is_number_char c then
        (case number_of (c # takeWhile is_number_char cs) of
           None \<Rightarrow> None
         | Some x \<Rightarrow> push (TValue (JNumber x)) (lex (dropWhile is_number_char cs)))
      else if is_lower c then
        (case literal_of (c # takeWhile is_lower cs) of
           None \<Rightarrow> None
         | Some v \<Rightarrow> push (TValue v) (lex (dropWhile is_lower cs)))
      else None)"
  by pat_completeness auto
termination
  by (relation "measure length") (auto simp: less_Suc_eq_le length_dropWhile_le)

text \<open>
  The stack machine. A frame is an array or an object under construction; an object
  frame holds the key whose value is being read. The state says what may come next.
\<close>

datatype frame = ArrFrame "jsval list" | ObjFrame "(jsstring \<times> jsval) list" "jsstring option"

datatype pstate =
    WantValue
  | WantValueOrEnd
  | WantKeyOrEnd
  | WantKey
  | WantColon
  | AfterValue
  | Finished jsval

text \<open>A complete value goes to the frame on top of the stack, or is the result.\<close>

fun deliver :: "jsval \<Rightarrow> frame list \<Rightarrow> (pstate \<times> frame list) option" where
  "deliver v [] = Some (Finished v, [])"
| "deliver v (ArrFrame es # fs) = Some (AfterValue, ArrFrame (es @ [v]) # fs)"
| "deliver v (ObjFrame ms (Some k) # fs) = Some (AfterValue, ObjFrame (ms @ [(k, v)]) None # fs)"
| "deliver v (ObjFrame ms None # fs) = None"

fun close_array :: "frame list \<Rightarrow> (pstate \<times> frame list) option" where
  "close_array (ArrFrame es # fs) = deliver (JArray es) fs"
| "close_array fs = None"

fun close_object :: "frame list \<Rightarrow> (pstate \<times> frame list) option" where
  "close_object (ObjFrame ms None # fs) = deliver (JObject ms) fs"
| "close_object fs = None"

fun open_key :: "jsstring \<Rightarrow> frame list \<Rightarrow> (pstate \<times> frame list) option" where
  "open_key k (ObjFrame ms None # fs) = Some (WantColon, ObjFrame ms (Some k) # fs)"
| "open_key k fs = None"

fun start_value :: "token \<Rightarrow> frame list \<Rightarrow> (pstate \<times> frame list) option" where
  "start_value (TValue v) fs = deliver v fs"
| "start_value LBracket fs = Some (WantValueOrEnd, ArrFrame [] # fs)"
| "start_value LBrace fs = Some (WantKeyOrEnd, ObjFrame [] None # fs)"
| "start_value t fs = None"

fun step :: "pstate \<Rightarrow> frame list \<Rightarrow> token \<Rightarrow> (pstate \<times> frame list) option" where
  "step WantValue fs t = start_value t fs"
| "step WantValueOrEnd fs RBracket = close_array fs"
| "step WantValueOrEnd fs t = start_value t fs"
| "step WantKeyOrEnd fs RBrace = close_object fs"
| "step WantKeyOrEnd fs (TValue (JString k)) = open_key k fs"
| "step WantKey fs (TValue (JString k)) = open_key k fs"
| "step WantColon fs Colon = Some (WantValue, fs)"
| "step AfterValue (ArrFrame es # fs) Comma = Some (WantValue, ArrFrame es # fs)"
| "step AfterValue (ObjFrame ms None # fs) Comma = Some (WantKey, ObjFrame ms None # fs)"
| "step AfterValue fs RBracket = close_array fs"
| "step AfterValue fs RBrace = close_object fs"
| "step st fs t = None"

fun parse_tokens :: "pstate \<Rightarrow> frame list \<Rightarrow> token list \<Rightarrow> jsval option" where
  "parse_tokens (Finished v) fs [] = Some v"
| "parse_tokens st fs [] = None"
| "parse_tokens st fs (t # ts) =
     (case step st fs t of
        None \<Rightarrow> None
      | Some (st', fs') \<Rightarrow> parse_tokens st' fs' ts)"

definition JSON_parse :: "jsstring \<Rightarrow> exn + jsval" where
  "JSON_parse text =
     (case lex text of
        None \<Rightarrow> Inl SyntaxError
      | Some ts \<Rightarrow>
          (case parse_tokens WantValue [] ts of
             None \<Rightarrow> Inl SyntaxError
           | Some v \<Rightarrow> Inr v))"

section \<open>ValidatorService (src/services/validator.service.ts)\<close>

definition logFailure :: "jsstring \<Rightarrow> response \<Rightarrow> event list" where
  "logFailure testName r =
     (let bodyPreview =
            (if body_truthy (body r)
             then substring0 (String_of (body r)) LOG_BODY_PREVIEW_LENGTH
             else lit ''No body'')
      in LoggerService_error
           (testName @ lit '' failed: Status '' @ number_to_string (status r)
              @ lit '', Body: '' @ bodyPreview)
           (Some (lit ''Validation'')))"

text \<open>An omitted \<open>expectedStatus\<close> is \<open>None\<close>; the default parameter value replaces it.\<close>

definition validateResponse ::
  "response \<Rightarrow> jsstring \<Rightarrow> int option \<Rightarrow> MetricsService
     \<Rightarrow> (exn + bool) \<times> MetricsService \<times> event list" where
  "validateResponse r testName expectedStatus_arg m =
     (let expectedStatus =
            (case expectedStatus_arg of None \<Rightarrow> HTTP_STATUS_OK | Some n \<Rightarrow> n);
          checks = object_literal
            [(testName @ lit '': status is '' @ number_to_string expectedStatus,
                \<lambda>r. Inr (JBool (status r = expectedStatus))),
             (testName @ lit '': response time < '' @ number_to_string MAX_RESPONSE_TIME_MS
                  @ lit ''ms'',
                \<lambda>r. Inr (JBool (duration (timings r) < real_of_int MAX_RESPONSE_TIME_MS))),
             (testName @ lit '': response has body'',
                \<lambda>r. Inr (JBool (body r \<noteq> BodyNull \<and> 0 < length (String_of (body r)))))]
      in case check r checks of
           (Inl e, evs) \<Rightarrow> (Inl e, m, evs)
         | (Inr success, evs) \<Rightarrow>
             (let m1 = recordError (\<not> success) m;
                  m2 = recordSuccess success m1;
                  m3 = recordApiDuration (duration (timings r)) m2
              in if \<not> success
                 then (Inr success, incrementFailedRequests m3, evs @ logFailure testName r)
                 else (Inr success, m3, evs)))"

text \<open>\<open>body.error || body.message\<close>: the second property is read only when the first
  is falsy.\<close>

definition error_or_message :: "jsval \<Rightarrow> exn + jsval" where
  "error_or_message b =
     (case get_property b (lit ''error'') of
        Inl e \<Rightarrow> Inl e
      | Inr x \<Rightarrow> if ToBoolean x then Inr x else get_property b (lit ''message''))"

text \<open>The inner \<open>case\<close> of the second check is the \<open>try\<close> block, the outer one the
  \<open>catch\<close>.\<close>

definition validateErrorResponse ::
  "response \<Rightarrow> jsstring \<Rightarrow> int option \<Rightarrow> MetricsService
     \<Rightarrow> (exn + bool) \<times> MetricsService \<times> event list" where
  "validateErrorResponse r testName expectedStatus_arg m =
     (let expectedStatus =
            (case expectedStatus_arg of None \<Rightarrow> HTTP_STATUS_BAD_REQUEST | Some n \<Rightarrow> n);
          checks = object_literal
            [(testName @ lit '': status is '' @ number_to_string expectedStatus,
                \<lambda>r. Inr (JBool (status r = expectedStatus))),
             (testName @ lit '': has error message'',
                \<lambda>r. case (case JSON_parse (String_of (body r)) of
                             Inl e \<Rightarrow> Inl e
                           | Inr b \<Rightarrow>
                               (case error_or_message b of
                                  Inl e \<Rightarrow> Inl e
                                | Inr v \<Rightarrow> Inr (JBool (ToBoolean v)))) of
                       Inl e \<Rightarrow> Inr (JBool False)
                     | Inr v \<Rightarrow> Inr v)]
      in case check r checks of (res, evs) \<Rightarrow> (res, m, evs))"

section \<open>The legacy helpers (utils/helpers.ts)\<close>

text \<open>
  The helpers module declares its own four metric objects, under the same metric names
  as \<open>MetricsService\<close>; k6 keeps one series per metric name, so the helpers write to
  the same four series. They print to the error console directly.
\<close>

definition checkResponse ::
  "response \<Rightarrow> jsstring \<Rightarrow> int option \<Rightarrow> MetricsService
     \<Rightarrow> (exn + bool) \<times> MetricsService \<times> event list" where
  "checkResponse r testName expectedStatus_arg m =
     (let expectedStatus = (case expectedStatus_arg of None \<Rightarrow> 200 | Some n \<Rightarrow> n)
      in case check r (object_literal
            [(testName @ lit '': status is '' @ number_to_string expectedStatus,
                \<lambda>r. Inr (JBool (status r = expectedStatus))),
             (testName @ lit '': response time < 500ms'',
                \<lambda>r. Inr (JBool (duration (timings r) < 500))),
             (testName @ lit '': response has body'',
                \<lambda>r. Inr (JBool (body r \<noteq> BodyNull \<and> 0 < length (String_of (body r)))))]) of
           (Inl e, evs) \<Rightarrow> (Inl e, m, evs)
         | (Inr success, evs) \<Rightarrow>
             (let m1 = m\<lparr>errorRate := errorRate m @ [\<not> success]\<rparr>;
                  m2 = m1\<lparr>successRate := successRate m1 @ [success]\<rparr>;
                  m3 = m2\<lparr>apiDuration := apiDuration m2 @ [duration (timings r)]\<rparr>
              in if \<not> success
                 then
                   (let m4 = m3\<lparr>failedRequests := failedRequests m3 @ [1]\<rparr>;
                        bodyPreview =
                          (if body_truthy (body r)
                           then substring0 (String_of (body r)) 200
                           else lit ''No body'')
                    in (Inr success, m4,
                        evs @ [ConsoleError
                                 (cross_mark @ lit '' '' @ testName @ lit '' failed: Status ''
                                    @ number_to_string (status r) @ lit '', Body: ''
                                    @ bodyPreview)]))
                 else (Inr success, m3, evs)))"

definition checkErrorResponse ::
  "response \<Rightarrow> jsstring \<Rightarrow> int option \<Rightarrow> MetricsService
     \<Rightarrow> (exn + bool) \<times> MetricsService \<times> event list" where
  "checkErrorResponse r testName expectedStatus_arg m =
     (let expectedStatus = (case expectedStatus_arg of None \<Rightarrow> 400 | Some n \<Rightarrow> n)
      in case check r (object_literal
            [(testName @ lit '': status is '' @ number_to_string expectedStatus,
                \<lambda>r. Inr (JBool (status r = expectedStatus))),
             (testName @ lit '': has error message'',
                \<lambda>r. case (case JSON_parse (String_of (body r)) of
                             Inl e \<Rightarrow> Inl e
                           | Inr b \<Rightarrow> error_or_message b) of
                       Inl e \<Rightarrow> Inr (JBool False)
                     | Inr v \<Rightarrow> Inr v)]) of
           (res, evs) \<Rightarrow> (res, m, evs))"

section \<open>Notions used to state the properties\<close>

text \<open>The lines that a list of outputs puts on the error console.\<close>

fun console_lines :: "event list \<Rightarrow> jsstring list" where
  "console_lines [] = []"
| "console_lines (ConsoleError l # evs) = l # console_lines evs"
| "console_lines (CheckSample n b # evs) = console_lines evs"

text \<open>The named checks that a list of outputs reports, with their outcomes.\<close>

fun check_samples :: "event list \<Rightarrow> (jsstring \<times> bool) list" where
  "check_samples [] = []"
| "check_samples (CheckSample n b # evs) = (n, b) # check_samples evs"
| "check_samples (ConsoleError l # evs) = check_samples evs"

text \<open>
  The error indicator in the words of the specification: the body, parsed as JSON, is an
  object that has a truthy field \<open>error\<close> or a truthy field \<open>message\<close>. A body that
  does not parse, or parses to something that is not an object, has none.
\<close>

definition truthy_field :: "(jsstring \<times> jsval) list \<Rightarrow> jsstring \<Rightarrow> bool" where
  "truthy_field ms k = (case map_of (rev ms) k of None \<Rightarrow> False | Some v \<Rightarrow> ToBoolean v)"

definition has_error_indicator :: "response_body \<Rightarrow> bool" where
  "has_error_indicator b =
     (case JSON_parse (String_of b) of
        Inr (JObject ms) \<Rightarrow> truthy_field ms (lit ''error'') \<or> truthy_field ms (lit ''message'')
      | _ \<Rightarrow> False)"

text \<open>A console line with a context tag put in front of it; a check sample as it is.\<close>

fun with_context :: "jsstring \<Rightarrow> event \<Rightarrow> event" where
  "with_context c (ConsoleError l) = ConsoleError (lit '' ['' @ c @ lit ''] '' @ l)"
| "with_context c (CheckSample n b) = CheckSample n b"

section \<open>Object literals and check names\<close>

lemma object_literal2:
  "k1 \<noteq> k2 \<Longrightarrow> object_literal [(k1, f1), (k2, f2)] = [(k1, f1), (k2, f2)]"
  by (simp add: object_literal_def)

lemma object_literal3:
  "k1 \<noteq> k2 \<Longrightarrow> k1 \<noteq> k3 \<Longrightarrow> k2 \<noteq> k3 \<Longrightarrow>
   object_literal [(k1, f1), (k2, f2), (k3, f3)] = [(k1, f1), (k2, f2), (k3, f3)]"
  by (simp add: object_literal_def)

text \<open>The names of the checks of one call differ from each other, whatever the test
  name and the expected status are: they differ in the second letter after the colon.\<close>

lemma status_name_neq_time_name:
  "t @ lit '': status is '' @ x \<noteq> t @ lit '': response time < '' @ y"
  by (simp add: lit_def)

lemma status_name_neq_body_name:
  "t @ lit '': status is '' @ x \<noteq> t @ lit '': response has body''"
  by (simp add: lit_def)

lemma time_name_neq_body_name:
  "t @ lit '': response time < '' @ y \<noteq> t @ lit '': response has body''"
  by (simp add: lit_def)

lemma status_name_neq_error_name:
  "t @ lit '': status is '' @ x \<noteq> t @ lit '': has error message''"
  by (simp add: lit_def)

lemma number_to_string_500: "number_to_string 500 = lit ''500''"
  by (simp add: number_to_string_def decimal.simps lit_def)

lemma check2:
  "check r [(n1, f1), (n2, f2)] =
     (case f1 r of
        Inl e \<Rightarrow> (Inl e, [CheckSample n1 False])
      | Inr v1 \<Rightarrow>
          (case f2 r of
             Inl e \<Rightarrow> (Inl e, [CheckSample n1 (ToBoolean v1), CheckSample n2 False])
           | Inr v2 \<Rightarrow>
               (Inr (ToBoolean v1 \<and> ToBoolean v2),
                [CheckSample n1 (ToBoolean v1), CheckSample n2 (ToBoolean v2)])))"
  by (simp add: check_def split: sum.split)

lemma check3:
  "check r [(n1, \<lambda>r. Inr (JBool (p1 r))), (n2, \<lambda>r. Inr (JBool (p2 r))),
            (n3, \<lambda>r. Inr (JBool (p3 r)))]
   = (Inr (p1 r \<and> p2 r \<and> p3 r),
      [CheckSample n1 (p1 r), CheckSample n2 (p2 r), CheckSample n3 (p3 r)])"
  by (simp add: check_def)

lemma has_body_iff:
  "(b \<noteq> BodyNull \<and> 0 < length (String_of b)) = (b \<noteq> BodyNull \<and> b \<noteq> BodyText [])"
  by (cases b) (simp_all add: lit_def)

section \<open>What validateResponse computes\<close>

text \<open>The three checks are always reported, the outcome is their conjunction, the three
  rate and trend series take one sample each, and a failed outcome adds one sample to
  the counter and one line to the console.\<close>

lemma validateResponse_unfold:
  "validateResponse r t e m =
     (let es = (case e of None \<Rightarrow> 200 | Some n \<Rightarrow> n);
          c1 = (status r = es);
          c2 = (duration (timings r) < 500);
          c3 = (body r \<noteq> BodyNull \<and> body r \<noteq> BodyText []);
          ok = (c1 \<and> c2 \<and> c3)
      in (Inr ok,
          m\<lparr>errorRate := errorRate m @ [\<not> ok],
            successRate := successRate m @ [ok],
            apiDuration := apiDuration m @ [duration (timings r)],
            failedRequests := (if ok then failedRequests m else failedRequests m @ [1])\<rparr>,
          [CheckSample (t @ lit '': status is '' @ number_to_string es) c1,
           CheckSample (t @ lit '': response time < 500ms'') c2,
           CheckSample (t @ lit '': response has body'') c3]
          @ (if ok then [] else logFailure t r)))"
proof -
  define es where "es = (case e of None \<Rightarrow> HTTP_STATUS_OK | Some n \<Rightarrow> n)"
  define n1 where "n1 = t @ lit '': status is '' @ number_to_string es"
  define n2 where
    "n2 = t @ lit '': response time < '' @ number_to_string MAX_RESPONSE_TIME_MS @ lit ''ms''"
  define n3 where "n3 = t @ lit '': response has body''"
  have n2: "n2 = t @ lit '': response time < 500ms''"
    by (simp add: n2_def MAX_RESPONSE_TIME_MS_def number_to_string_500 lit_def)
  have names: "n1 \<noteq> n2" "n1 \<noteq> n3" "n2 \<noteq> n3"
    unfolding n1_def n2_def n3_def
    by (rule status_name_neq_time_name status_name_neq_body_name time_name_neq_body_name)+
  have es: "es = (case e of None \<Rightarrow> 200 | Some n \<Rightarrow> n)"
    by (simp add: es_def HTTP_STATUS_OK_def split: option.split)
  have "validateResponse r t e m =
      (case check r (object_literal
            [(n1, \<lambda>r. Inr (JBool (status r = es))),
             (n2, \<lambda>r. Inr (JBool (duration (timings r) < real_of_int MAX_RESPONSE_TIME_MS))),
             (n3, \<lambda>r. Inr (JBool (body r \<noteq> BodyNull \<and> 0 < length (String_of (body r)))))]) of
           (Inl e, evs) \<Rightarrow> (Inl e, m, evs)
         | (Inr success, evs) \<Rightarrow>
             (let m1 = recordError (\<not> success) m;
                  m2 = recordSuccess success m1;
                  m3 = recordApiDuration (duration (timings r)) m2
              in if \<not> success
                 then (Inr success, incrementFailedRequests m3, evs @ logFailure t r)
                 else (Inr success, m3, evs)))"
    unfolding validateResponse_def Let_def es_def n1_def n2_def n3_def ..
  also have "\<dots> = (let ok = (status r = es \<and> duration (timings r) < 500
                        \<and> body r \<noteq> BodyNull \<and> body r \<noteq> BodyText [])
      in (Inr ok,
          m\<lparr>errorRate := errorRate m @ [\<not> ok],
            successRate := successRate m @ [ok],
            apiDuration := apiDuration m @ [duration (timings r)],
            failedRequests := (if ok then failedRequests m else failedRequests m @ [1])\<rparr>,
          [CheckSample n1 (status r = es),
           CheckSample n2 (duration (timings r) < 500),
           CheckSample n3 (body r \<noteq> BodyNull \<and> body r \<noteq> BodyText [])]
          @ (if ok then [] else logFailure t r)))"
    unfolding object_literal3 [OF names] check3 has_body_iff
    by (simp add: MAX_RESPONSE_TIME_MS_def Let_def
        recordError_def recordSuccess_def recordApiDuration_def incrementFailedRequests_def)
  finally show ?thesis
    unfolding n2 by (simp add: Let_def n1_def n3_def es)
qed

text \<open>The line that a failure puts on the console.\<close>

lemma logFailure_line:
  "logFailure t r =
     [ConsoleError (lit '' [Validation] '' @ cross_mark @ lit '' '' @ t @ lit '' failed: Status ''
        @ number_to_string (status r) @ lit '', Body: ''
        @ (if body_truthy (body r) then take 200 (String_of (body r)) else lit ''No body''))]"
  by (simp add: logFailure_def LoggerService_error_def LOG_BODY_PREVIEW_LENGTH_def
      substring0_def lit_def)

lemma logFailure_mentions_testName:
  "\<exists>line. logFailure t r = [ConsoleError line] \<and> sublist t line"
proof -
  define rest where
    "rest = lit '' failed: Status '' @ number_to_string (status r) @ lit '', Body: ''
        @ (if body_truthy (body r) then take 200 (String_of (body r)) else lit ''No body'')"
  have "logFailure t r
      = [ConsoleError ((lit '' [Validation] '' @ cross_mark @ lit '' '') @ t @ rest)]"
    by (simp add: logFailure_line rest_def)
  then show ?thesis
    by (metis sublist_appendI)
qed

section \<open>What validateErrorResponse and the legacy helpers compute\<close>

lemma error_or_message_truthy:
  "(case error_or_message b of Inl e \<Rightarrow> False | Inr v \<Rightarrow> ToBoolean v) =
     (case b of
        JObject ms \<Rightarrow> truthy_field ms (lit ''error'') \<or> truthy_field ms (lit ''message'')
      | _ \<Rightarrow> False)"
  by (cases b) (auto simp: error_or_message_def truthy_field_def split: option.splits)

lemma has_error_indicator_alt:
  "has_error_indicator b =
     (case JSON_parse (String_of b) of
        Inl e \<Rightarrow> False
      | Inr v \<Rightarrow> (case error_or_message v of Inl e \<Rightarrow> False | Inr x \<Rightarrow> ToBoolean x))"
  unfolding error_or_message_truthy has_error_indicator_def
  by (simp split: sum.split jsval.split)

lemma error_check_new:
  "(case (case JSON_parse (String_of b) of
            Inl e \<Rightarrow> Inl e
          | Inr v \<Rightarrow>
              (case error_or_message v of
                 Inl e \<Rightarrow> Inl e
               | Inr x \<Rightarrow> Inr (JBool (ToBoolean x)))) of
      Inl e \<Rightarrow> Inr (JBool False)
    | Inr v \<Rightarrow> Inr v) = (Inr (JBool (has_error_indicator b)) :: exn + jsval)"
  unfolding has_error_indicator_alt by (simp split: sum.split)

lemma error_check_legacy:
  "\<exists>v. (case (case JSON_parse (String_of b) of
                 Inl e \<Rightarrow> Inl e
               | Inr v \<Rightarrow> error_or_message v) of
           Inl e \<Rightarrow> Inr (JBool False)
         | Inr v \<Rightarrow> Inr v) = (Inr v :: exn + jsval) \<and> ToBoolean v = has_error_indicator b"
  unfolding has_error_indicator_alt by (simp split: sum.split)

lemma validateErrorResponse_unfold:
  "validateErrorResponse r t e m =
     (let es = (case e of None \<Rightarrow> 400 | Some n \<Rightarrow> n);
          c1 = (status r = es);
          c2 = has_error_indicator (body r)
      in (Inr (c1 \<and> c2), m,
          [CheckSample (t @ lit '': status is '' @ number_to_string es) c1,
           CheckSample (t @ lit '': has error message'') c2]))"
proof -
  have es: "(case e of None \<Rightarrow> HTTP_STATUS_BAD_REQUEST | Some n \<Rightarrow> n)
          = (case e of None \<Rightarrow> 400 | Some n \<Rightarrow> n)"
    by (simp add: HTTP_STATUS_BAD_REQUEST_def split: option.split)
  show ?thesis
    unfolding validateErrorResponse_def Let_def es
      object_literal2 [OF status_name_neq_error_name] check2 error_check_new
    by simp
qed

lemma checkErrorResponse_unfold:
  "checkErrorResponse r t e m =
     (let es = (case e of None \<Rightarrow> 400 | Some n \<Rightarrow> n);
          c1 = (status r = es);
          c2 = has_error_indicator (body r)
      in (Inr (c1 \<and> c2), m,
          [CheckSample (t @ lit '': status is '' @ number_to_string es) c1,
           CheckSample (t @ lit '': has error message'') c2]))"
proof -
  obtain v where v: "(case (case JSON_parse (String_of (body r)) of
                 Inl e \<Rightarrow> Inl e
               | Inr v \<Rightarrow> error_or_message v) of
           Inl e \<Rightarrow> Inr (JBool False)
         | Inr v \<Rightarrow> Inr v) = (Inr v :: exn + jsval)" "ToBoolean v = has_error_indicator (body r)"
    using error_check_legacy by blast
  show ?thesis
    unfolding checkErrorResponse_def Let_def
      object_literal2 [OF status_name_neq_error_name] check2 v(1)
    by (simp add: v(2))
qed

lemma checkResponse_unfold:
  "checkResponse r t e m =
     (let es = (case e of None \<Rightarrow> 200 | Some n \<Rightarrow> n);
          c1 = (status r = es);
          c2 = (duration (timings r) < 500);
          c3 = (body r \<noteq> BodyNull \<and> body r \<noteq> BodyText []);
          ok = (c1 \<and> c2 \<and> c3)
      in (Inr ok,
          m\<lparr>errorRate := errorRate m @ [\<not> ok],
            successRate := successRate m @ [ok],
            apiDuration := apiDuration m @ [duration (timings r)],
            failedRequests := (if ok then failedRequests m else failedRequests m @ [1])\<rparr>,
          [CheckSample (t @ lit '': status is '' @ number_to_string es) c1,
           CheckSample (t @ lit '': response time < 500ms'') c2,
           CheckSample (t @ lit '': response has body'') c3]
          @ (if ok then []
             else [ConsoleError (cross_mark @ lit '' '' @ t @ lit '' failed: Status ''
                     @ number_to_string (status r) @ lit '', Body: ''
                     @ (if body_truthy (body r) then take 200 (String_of (body r))
                        else lit ''No body''))])))"
proof -
  have names: "\<And>x. t @ lit '': status is '' @ x \<noteq> t @ lit '': response time < 500ms''"
    "\<And>x. t @ lit '': status is '' @ x \<noteq> t @ lit '': response has body''"
    "t @ lit '': response time < 500ms'' \<noteq> t @ lit '': response has body''"
    by (simp_all add: lit_def)
  show ?thesis
    unfolding checkResponse_def Let_def object_literal3 [OF names] check3 has_body_iff
    by (simp add: substring0_def)
qed

section \<open>Properties of validateResponse\<close>

text \<open>
  C1. For every response whose status equals the given expected status, whose
  \<open>timings.duration\<close> is strictly less than 500 ms and whose body is neither
  \<open>null\<close> nor the empty string, \<open>validateResponse\<close> returns \<open>true\<close> and does not
  call \<open>incrementFailedRequests\<close>: the series of the failed-request counter, and with
  it the value of the counter, is unchanged.
\<close>

theorem validateResponse_passes:
  assumes "status r = expectedStatus"
    and "duration (timings r) < 500"
    and "body r \<noteq> BodyNull"
    and "body r \<noteq> BodyText []"
  shows "fst (validateResponse r testName (Some expectedStatus) m) = Inr True
       \<and> failedRequests (fst (snd (validateResponse r testName (Some expectedStatus) m)))
           = failedRequests m
       \<and> counter_value
           (failedRequests (fst (snd (validateResponse r testName (Some expectedStatus) m))))
           = counter_value (failedRequests m)"
  using assms by (simp add: validateResponse_unfold)

theorem validateResponse_passes_witness:
  "fst (validateResponse
          \<lparr>status = 200, body = BodyText (lit ''{\"ok\":true}''), timings = \<lparr>duration = 120\<rparr>\<rparr>
          (lit ''Login'') (Some 200)
          \<lparr>errorRate = [], successRate = [], apiDuration = [], failedRequests = []\<rparr>)
     = Inr True
   \<and> failedRequests (fst (snd (validateResponse
          \<lparr>status = 200, body = BodyText (lit ''{\"ok\":true}''), timings = \<lparr>duration = 120\<rparr>\<rparr>
          (lit ''Login'') (Some 200)
          \<lparr>errorRate = [], successRate = [], apiDuration = [], failedRequests = []\<rparr>)))
     = []"
  using validateResponse_passes
    [of "\<lparr>status = 200, body = BodyText (lit ''{\"ok\":true}''), timings = \<lparr>duration = 120\<rparr>\<rparr>"
        200 "lit ''Login''"
        "\<lparr>errorRate = [], successRate = [], apiDuration = [], failedRequests = []\<rparr>"]
  by (simp add: lit_def)

text \<open>
  C2. For every response for which at least one of the three criteria fails (the status
  differs from the expected status, \<open>timings.duration\<close> is not strictly less than
  500 ms, or the body is \<open>null\<close> or empty), \<open>validateResponse\<close> returns \<open>false\<close>,
  calls \<open>incrementFailedRequests\<close> exactly once (one sample of 1 is added to the
  counter), and emits exactly one failure log line, which contains the test name.
\<close>

theorem validateResponse_fails:
  assumes "status r \<noteq> expectedStatus \<or> \<not> duration (timings r) < 500
           \<or> body r = BodyNull \<or> body r = BodyText []"
  shows "\<exists>m' evs line.
           validateResponse r testName (Some expectedStatus) m = (Inr False, m', evs)
         \<and> failedRequests m' = failedRequests m @ [1]
         \<and> console_lines evs = [line]
         \<and> sublist testName line"
proof -
  have ko: "\<not> (status r = expectedStatus \<and> duration (timings r) < 500
            \<and> body r \<noteq> BodyNull \<and> body r \<noteq> BodyText [])"
    using assms by blast
  obtain line where line: "logFailure testName r = [ConsoleError line]" "sublist testName line"
    using logFailure_mentions_testName by blast
  show ?thesis
    unfolding validateResponse_unfold Let_def
    using ko line by simp
qed

theorem validateResponse_fails_witness:
  "\<exists>m' evs line.
     validateResponse \<lparr>status = 404, body = BodyText [], timings = \<lparr>duration = 50\<rparr>\<rparr>
       (lit ''Login'') (Some 200)
       \<lparr>errorRate = [], successRate = [], apiDuration = [], failedRequests = []\<rparr>
       = (Inr False, m', evs)
     \<and> failedRequests m' = [1]
     \<and> console_lines evs = [line]
     \<and> sublist (lit ''Login'') line"
  using validateResponse_fails
    [of "\<lparr>status = 404, body = BodyText [], timings = \<lparr>duration = 50\<rparr>\<rparr>" 200 "lit ''Login''"
        "\<lparr>errorRate = [], successRate = [], apiDuration = [], failedRequests = []\<rparr>"]
  by simp

text \<open>
  C4. On every invocation of \<open>validateResponse\<close>, \<open>recordError\<close> and
  \<open>recordSuccess\<close> are each called exactly once, with complementary booleans: the
  error-rate series takes the negation of the outcome and the success-rate series the
  outcome itself, so the two never take the same boolean.
\<close>

theorem validateResponse_records_complementary_rates:
  "\<exists>ok m' evs.
     validateResponse r testName expectedStatus m = (Inr ok, m', evs)
   \<and> errorRate m' = errorRate m @ [\<not> ok]
   \<and> successRate m' = successRate m @ [ok]"
  unfolding validateResponse_unfold Let_def by simp

theorem validateResponse_records_complementary_rates_witness:
  "\<exists>ok m' evs.
     validateResponse \<lparr>status = 200, body = BodyText (lit ''ok''), timings = \<lparr>duration = 900\<rparr>\<rparr>
       (lit ''Login'') (Some 200)
       \<lparr>errorRate = [False], successRate = [True], apiDuration = [120], failedRequests = []\<rparr>
       = (Inr ok, m', evs)
   \<and> errorRate m' = [False, \<not> ok]
   \<and> successRate m' = [True, ok]"
  using validateResponse_records_complementary_rates
    [of "\<lparr>status = 200, body = BodyText (lit ''ok''), timings = \<lparr>duration = 900\<rparr>\<rparr>"
        "lit ''Login''" "Some 200"
        "\<lparr>errorRate = [False], successRate = [True], apiDuration = [120], failedRequests = []\<rparr>"]
  by simp

text \<open>
  C7. When \<open>validateResponse\<close> fails for a response whose body is a string of at least
  200 characters, the failure log line ends with a body preview that is exactly the
  first 200 characters of the body.
\<close>

theorem validateResponse_body_preview:
  assumes "fst (validateResponse r testName expectedStatus m) = Inr False"
    and "body r = BodyText s"
    and "200 \<le> length s"
  shows "console_lines (snd (snd (validateResponse r testName expectedStatus m)))
           = [lit '' [Validation] '' @ cross_mark @ lit '' '' @ testName
                @ lit '' failed: Status '' @ number_to_string (status r) @ lit '', Body: ''
                @ take LOG_BODY_PREVIEW_LENGTH s]
         \<and> length (take LOG_BODY_PREVIEW_LENGTH s) = 200"
  using assms unfolding validateResponse_unfold Let_def logFailure_line LOG_BODY_PREVIEW_LENGTH_def
  by (auto split: if_splits)

theorem validateResponse_body_preview_witness:
  "console_lines (snd (snd (validateResponse
       \<lparr>status = 500, body = BodyText (replicate 1000 0x78), timings = \<lparr>duration = 50\<rparr>\<rparr>
       (lit ''Login'') (Some 200)
       \<lparr>errorRate = [], successRate = [], apiDuration = [], failedRequests = []\<rparr>)))
     = [lit '' [Validation] '' @ cross_mark @ lit '' Login failed: Status 500, Body: ''
          @ replicate 200 0x78]"
  using validateResponse_body_preview
    [of "\<lparr>status = 500, body = BodyText (replicate 1000 0x78), timings = \<lparr>duration = 50\<rparr>\<rparr>"
        "lit ''Login''" "Some 200"
        "\<lparr>errorRate = [], successRate = [], apiDuration = [], failedRequests = []\<rparr>"
        "replicate 1000 0x78"]
  by (simp add: validateResponse_unfold number_to_string_def decimal.simps lit_def
      LOG_BODY_PREVIEW_LENGTH_def)

text \<open>
  C9. For every fixed response, test name and expected status, two successive calls of
  \<open>validateResponse\<close> return the same boolean. The only state that a call changes is
  that of the metrics recorder, which is the state passed from one call to the next, and
  neither the outcome nor the outputs of a call depend on it.
\<close>

theorem validateResponse_idempotent:
  "fst (validateResponse r testName expectedStatus
          (fst (snd (validateResponse r testName expectedStatus m))))
     = fst (validateResponse r testName expectedStatus m)
   \<and> (\<forall>m'. fst (validateResponse r testName expectedStatus m')
            = fst (validateResponse r testName expectedStatus m)
          \<and> snd (snd (validateResponse r testName expectedStatus m'))
            = snd (snd (validateResponse r testName expectedStatus m)))"
  unfolding validateResponse_unfold Let_def by simp

theorem validateResponse_idempotent_witness:
  "fst (validateResponse \<lparr>status = 404, body = BodyText [], timings = \<lparr>duration = 50\<rparr>\<rparr>
          (lit ''Login'') (Some 200)
          (fst (snd (validateResponse
             \<lparr>status = 404, body = BodyText [], timings = \<lparr>duration = 50\<rparr>\<rparr>
             (lit ''Login'') (Some 200)
             \<lparr>errorRate = [], successRate = [], apiDuration = [], failedRequests = []\<rparr>))))
     = Inr False"
  using validateResponse_idempotent
    [of "\<lparr>status = 404, body = BodyText [], timings = \<lparr>duration = 50\<rparr>\<rparr>"
        "lit ''Login''" "Some 200"
        "\<lparr>errorRate = [], successRate = [], apiDuration = [], failedRequests = []\<rparr>"]
  by (simp add: validateResponse_unfold)

section \<open>JSON.parse on the bodies of the examples\<close>

lemma JSON_parse_not_json: "JSON_parse (lit ''not json'') = Inl SyntaxError"
  by code_simp

lemma JSON_parse_message:
  "JSON_parse (lit ''{\"message\":\"Email in use\"}'')
     = Inr (JObject [(lit ''message'', JString (lit ''Email in use''))])"
  by code_simp

lemma JSON_parse_empty_object: "JSON_parse (lit ''{}'') = Inr (JObject [])"
  by code_simp

lemma JSON_parse_null: "JSON_parse (lit ''null'') = Inr JNull"
  by code_simp

lemma has_error_indicator_not_json: "\<not> has_error_indicator (BodyText (lit ''not json''))"
  by (simp add: has_error_indicator_def JSON_parse_not_json)

lemma has_error_indicator_message:
  "has_error_indicator (BodyText (lit ''{\"message\":\"Email in use\"}''))"
  unfolding has_error_indicator_def String_of.simps JSON_parse_message
  by (simp add: truthy_field_def lit_def)

section \<open>The example scenarios of the specification\<close>

text \<open>Scenario 1: status 200, a JSON body, 120 ms, expected 200: the validator returns
  \<open>true\<close>, the error rate takes \<open>false\<close> and the success rate \<open>true\<close>.\<close>

lemma scenario_1:
  "validateResponse
     \<lparr>status = 200, body = BodyText (lit ''{\"ok\":true}''), timings = \<lparr>duration = 120\<rparr>\<rparr>
     (lit ''T'') (Some 200)
     \<lparr>errorRate = [], successRate = [], apiDuration = [], failedRequests = []\<rparr>
   = (Inr True,
      \<lparr>errorRate = [False], successRate = [True], apiDuration = [120], failedRequests = []\<rparr>,
      [CheckSample (lit ''T: status is 200'') True,
       CheckSample (lit ''T: response time < 500ms'') True,
       CheckSample (lit ''T: response has body'') True])"
  by (simp add: validateResponse_unfold number_to_string_def decimal.simps lit_def)

text \<open>Scenario 2: status 404, an empty body, 50 ms, expected 200: the status check and
  the body check fail, and the failed-request counter goes up by one.\<close>

lemma scenario_2:
  "validateResponse
     \<lparr>status = 404, body = BodyText [], timings = \<lparr>duration = 50\<rparr>\<rparr>
     (lit ''T'') (Some 200)
     \<lparr>errorRate = [], successRate = [], apiDuration = [], failedRequests = []\<rparr>
   = (Inr False,
      \<lparr>errorRate = [True], successRate = [False], apiDuration = [50], failedRequests = [1]\<rparr>,
      [CheckSample (lit ''T: status is 200'') False,
       CheckSample (lit ''T: response time < 500ms'') True,
       CheckSample (lit ''T: response has body'') False,
       ConsoleError (lit '' [Validation] '' @ cross_mark
                       @ lit '' T failed: Status 404, Body: No body'')])"
  by (simp add: validateResponse_unfold logFailure_line number_to_string_def decimal.simps
      lit_def)

text \<open>Scenarios 3 and 4: status 400 as expected; a body with a message passes the error
  validator, the empty object does not.\<close>

lemma scenario_3:
  "fst (validateErrorResponse
     \<lparr>status = 400, body = BodyText (lit ''{\"message\":\"Email in use\"}''),
      timings = \<lparr>duration = 80\<rparr>\<rparr>
     (lit ''T'') (Some 400) m) = Inr True"
  by (simp add: validateErrorResponse_unfold has_error_indicator_message)

lemma scenario_4:
  "fst (validateErrorResponse
     \<lparr>status = 400, body = BodyText (lit ''{}''), timings = \<lparr>duration = 80\<rparr>\<rparr>
     (lit ''T'') (Some 400) m) = Inr False"
  by (simp add: validateErrorResponse_unfold has_error_indicator_def JSON_parse_empty_object
      truthy_field_def)

text \<open>Scenario 5: status 200 and a body, but 900 ms: the latency check alone fails.\<close>

lemma scenario_5:
  "check_samples (snd (snd (validateResponse
     \<lparr>status = 200, body = BodyText (lit ''ok''), timings = \<lparr>duration = 900\<rparr>\<rparr>
     (lit ''T'') (Some 200) m)))
   = [(lit ''T: status is 200'', True),
      (lit ''T: response time < 500ms'', False),
      (lit ''T: response has body'', True)]
   \<and> fst (validateResponse
     \<lparr>status = 200, body = BodyText (lit ''ok''), timings = \<lparr>duration = 900\<rparr>\<rparr>
     (lit ''T'') (Some 200) m) = Inr False"
  by (simp add: validateResponse_unfold logFailure_line number_to_string_def decimal.simps
      lit_def)

section \<open>Properties of validateErrorResponse\<close>

text \<open>
  C3. For every response, \<open>validateErrorResponse\<close> returns \<open>true\<close> if and only if
  the status equals the expected status and the body, parsed as JSON, contains a truthy
  \<open>error\<close> or \<open>message\<close> field. For a body that does not parse as JSON the second
  check is \<open>false\<close> and the function returns \<open>false\<close> instead of throwing; the
  string \<open>not json\<close> is such a body.
\<close>

theorem validateErrorResponse_iff:
  "fst (validateErrorResponse r testName (Some expectedStatus) m)
     = Inr (status r = expectedStatus \<and> has_error_indicator (body r))
   \<and> (\<forall>e. JSON_parse (String_of (body r)) = Inl e \<longrightarrow>
          fst (validateErrorResponse r testName (Some expectedStatus) m) = Inr False
        \<and> check_samples (snd (snd (validateErrorResponse r testName (Some expectedStatus) m)))
            = [(testName @ lit '': status is '' @ number_to_string expectedStatus,
                status r = expectedStatus),
               (testName @ lit '': has error message'', False)])"
  unfolding validateErrorResponse_unfold Let_def
  by (simp add: has_error_indicator_def)

theorem validateErrorResponse_iff_witness:
  "JSON_parse (String_of (BodyText (lit ''not json''))) = Inl SyntaxError
   \<and> fst (validateErrorResponse
            \<lparr>status = 400, body = BodyText (lit ''not json''), timings = \<lparr>duration = 80\<rparr>\<rparr>
            (lit ''Signup'') (Some 400)
            \<lparr>errorRate = [], successRate = [], apiDuration = [], failedRequests = []\<rparr>)
       = Inr False
   \<and> fst (validateErrorResponse
            \<lparr>status = 400, body = BodyText (lit ''{\"message\":\"Email in use\"}''),
             timings = \<lparr>duration = 80\<rparr>\<rparr>
            (lit ''Signup'') (Some 400)
            \<lparr>errorRate = [], successRate = [], apiDuration = [], failedRequests = []\<rparr>)
       = Inr True"
proof -
  have unparsable: "JSON_parse (String_of (BodyText (lit ''not json''))) = Inl SyntaxError"
    by (simp add: JSON_parse_not_json)
  have "fst (validateErrorResponse
            \<lparr>status = 400, body = BodyText (lit ''not json''), timings = \<lparr>duration = 80\<rparr>\<rparr>
            (lit ''Signup'') (Some 400)
            \<lparr>errorRate = [], successRate = [], apiDuration = [], failedRequests = []\<rparr>)
       = Inr False"
  proof -
    have "JSON_parse (String_of (body
            \<lparr>status = 400, body = BodyText (lit ''not json''), timings = \<lparr>duration = 80\<rparr>\<rparr>))
          = Inl SyntaxError"
      using unparsable by simp
    with validateErrorResponse_iff
      [of "\<lparr>status = 400, body = BodyText (lit ''not json''), timings = \<lparr>duration = 80\<rparr>\<rparr>"
        "lit ''Signup''" 400
        "\<lparr>errorRate = [], successRate = [], apiDuration = [], failedRequests = []\<rparr>"]
    show ?thesis by blast
  qed
  moreover have "fst (validateErrorResponse
            \<lparr>status = 400, body = BodyText (lit ''{\"message\":\"Email in use\"}''),
             timings = \<lparr>duration = 80\<rparr>\<rparr>
            (lit ''Signup'') (Some 400)
            \<lparr>errorRate = [], successRate = [], apiDuration = [], failedRequests = []\<rparr>)
       = Inr True"
    using has_error_indicator_message validateErrorResponse_iff
      [of "\<lparr>status = 400, body = BodyText (lit ''{\"message\":\"Email in use\"}''),
          timings = \<lparr>duration = 80\<rparr>\<rparr>"
        "lit ''Signup''" 400
        "\<lparr>errorRate = [], successRate = [], apiDuration = [], failedRequests = []\<rparr>"]
    by simp
  ultimately show ?thesis
    using unparsable by blast
qed

text \<open>
  C6. For every response, test name and expected status, \<open>validateErrorResponse\<close>
  calls no operation of \<open>MetricsService\<close> and emits no failure log line: it returns
  the metrics state as it got it, with all four series unchanged, its outputs are the
  two named checks and nothing else, and its result is their conjunction.
\<close>

theorem validateErrorResponse_frame:
  "\<exists>c1 c2.
     validateErrorResponse r testName expectedStatus m
       = (Inr (c1 \<and> c2), m,
          [CheckSample (testName @ lit '': status is ''
                          @ number_to_string (case expectedStatus of None \<Rightarrow> 400 | Some n \<Rightarrow> n)) c1,
           CheckSample (testName @ lit '': has error message'') c2])
   \<and> console_lines (snd (snd (validateErrorResponse r testName expectedStatus m))) = []"
  unfolding validateErrorResponse_unfold Let_def by simp

theorem validateErrorResponse_frame_witness:
  "\<exists>c1 c2.
     validateErrorResponse
       \<lparr>status = 400, body = BodyText (lit ''{}''), timings = \<lparr>duration = 80\<rparr>\<rparr>
       (lit ''Signup'') None
       \<lparr>errorRate = [False], successRate = [True], apiDuration = [120], failedRequests = [1]\<rparr>
     = (Inr (c1 \<and> c2),
        \<lparr>errorRate = [False], successRate = [True], apiDuration = [120], failedRequests = [1]\<rparr>,
        [CheckSample (lit ''Signup: status is 400'') c1,
         CheckSample (lit ''Signup: has error message'') c2])"
proof -
  have names: "lit ''Signup'' @ lit '': status is '' @ number_to_string 400
                 = lit ''Signup: status is 400''"
    "lit ''Signup'' @ lit '': has error message'' = lit ''Signup: has error message''"
    by (simp_all add: number_to_string_def decimal.simps lit_def)
  show ?thesis
    using validateErrorResponse_frame
      [of "\<lparr>status = 400, body = BodyText (lit ''{}''), timings = \<lparr>duration = 80\<rparr>\<rparr>"
        "lit ''Signup''" None
        "\<lparr>errorRate = [False], successRate = [True], apiDuration = [120], failedRequests = [1]\<rparr>"]
    unfolding names option.case by blast
qed

section \<open>Properties of both validators\<close>

text \<open>
  C5. Neither \<open>validateResponse\<close> nor \<open>validateErrorResponse\<close> ever throws: for
  every response, also one whose body is \<open>null\<close>, empty or not parseable as JSON,
  each returns a boolean, and a body that does not parse makes the error-message check
  fail instead of aborting the run.
\<close>

theorem validators_never_throw:
  "(\<exists>b m' evs. validateResponse r testName expectedStatus m = (Inr b, m', evs))
   \<and> (\<exists>b m' evs. validateErrorResponse r testName expectedStatus m = (Inr b, m', evs))
   \<and> (\<forall>e. JSON_parse (String_of (body r)) = Inl e \<longrightarrow>
          (\<exists>m' evs. validateErrorResponse r testName expectedStatus m = (Inr False, m', evs)
             \<and> (testName @ lit '': has error message'', False) \<in> set (check_samples evs)))"
  unfolding validateResponse_unfold validateErrorResponse_unfold Let_def
  by (simp add: has_error_indicator_def)

theorem validators_never_throw_witness:
  "JSON_parse (String_of BodyNull) = Inr JNull
   \<and> (\<exists>b m' evs. validateResponse
          \<lparr>status = 200, body = BodyNull, timings = \<lparr>duration = 80\<rparr>\<rparr> (lit ''Signup'') None
          \<lparr>errorRate = [], successRate = [], apiDuration = [], failedRequests = []\<rparr>
          = (Inr b, m', evs))
   \<and> (\<exists>b m' evs. validateErrorResponse
          \<lparr>status = 200, body = BodyNull, timings = \<lparr>duration = 80\<rparr>\<rparr> (lit ''Signup'') None
          \<lparr>errorRate = [], successRate = [], apiDuration = [], failedRequests = []\<rparr>
          = (Inr b, m', evs))
   \<and> JSON_parse (String_of (BodyText (lit ''not json''))) = Inl SyntaxError
   \<and> (\<exists>m' evs. validateErrorResponse
          \<lparr>status = 400, body = BodyText (lit ''not json''), timings = \<lparr>duration = 80\<rparr>\<rparr>
          (lit ''Signup'') None
          \<lparr>errorRate = [], successRate = [], apiDuration = [], failedRequests = []\<rparr>
          = (Inr False, m', evs))"
proof -
  have parsed: "JSON_parse (String_of BodyNull) = Inr JNull"
    by (simp add: JSON_parse_null)
  have unparsable: "JSON_parse (String_of (BodyText (lit ''not json''))) = Inl SyntaxError"
    by (simp add: JSON_parse_not_json)
  note null_body = validators_never_throw
    [of "\<lparr>status = 200, body = BodyNull, timings = \<lparr>duration = 80\<rparr>\<rparr>" "lit ''Signup''" None
        "\<lparr>errorRate = [], successRate = [], apiDuration = [], failedRequests = []\<rparr>"]
  note bad_body = validators_never_throw
    [of "\<lparr>status = 400, body = BodyText (lit ''not json''), timings = \<lparr>duration = 80\<rparr>\<rparr>"
        "lit ''Signup''" None
        "\<lparr>errorRate = [], successRate = [], apiDuration = [], failedRequests = []\<rparr>"]
  have "\<exists>m' evs. validateErrorResponse
          \<lparr>status = 400, body = BodyText (lit ''not json''), timings = \<lparr>duration = 80\<rparr>\<rparr>
          (lit ''Signup'') None
          \<lparr>errorRate = [], successRate = [], apiDuration = [], failedRequests = []\<rparr>
          = (Inr False, m', evs)"
    using bad_body unparsable by (simp del: String_of.simps) blast
  then show ?thesis
    using null_body parsed unparsable by blast
qed

text \<open>
  C8. When the expected status is omitted, \<open>validateResponse\<close> uses
  \<open>HTTP_STATUS.OK\<close>, which is 200, as the expected status, and
  \<open>validateErrorResponse\<close> uses \<open>HTTP_STATUS.BAD_REQUEST\<close>, which is 400, for every
  response and test name: the status check compares the status of the response with 200
  (with 400) and is reported under the name that carries that number, the outcome is the
  conjunction of that comparison with the other checks, and the whole call is the call
  with the constant passed explicitly.
\<close>

theorem default_expected_status:
  "HTTP_STATUS_OK = 200
   \<and> HTTP_STATUS_BAD_REQUEST = 400
   \<and> validateResponse r testName None m = validateResponse r testName (Some HTTP_STATUS_OK) m
   \<and> fst (validateResponse r testName None m)
       = Inr (status r = 200 \<and> duration (timings r) < 500
              \<and> body r \<noteq> BodyNull \<and> body r \<noteq> BodyText [])
   \<and> check_samples (snd (snd (validateResponse r testName None m)))
       = [(testName @ lit '': status is 200'', status r = 200),
          (testName @ lit '': response time < 500ms'', duration (timings r) < 500),
          (testName @ lit '': response has body'',
             body r \<noteq> BodyNull \<and> body r \<noteq> BodyText [])]
   \<and> validateErrorResponse r testName None m
       = validateErrorResponse r testName (Some HTTP_STATUS_BAD_REQUEST) m
   \<and> fst (validateErrorResponse r testName None m)
       = Inr (status r = 400 \<and> has_error_indicator (body r))
   \<and> check_samples (snd (snd (validateErrorResponse r testName None m)))
       = [(testName @ lit '': status is 400'', status r = 400),
          (testName @ lit '': has error message'', has_error_indicator (body r))]"
proof -
  have n200: "lit '': status is '' @ number_to_string 200 = lit '': status is 200''"
    by (simp add: number_to_string_def decimal.simps lit_def)
  have n400: "lit '': status is '' @ number_to_string 400 = lit '': status is 400''"
    by (simp add: number_to_string_def decimal.simps lit_def)
  have codes: "HTTP_STATUS_OK = 200" "HTTP_STATUS_BAD_REQUEST = 400"
    by (simp_all add: HTTP_STATUS_OK_def HTTP_STATUS_BAD_REQUEST_def)
  have same_ok:
    "validateResponse r testName None m = validateResponse r testName (Some HTTP_STATUS_OK) m"
    by (simp add: validateResponse_def)
  have same_bad: "validateErrorResponse r testName None m
      = validateErrorResponse r testName (Some HTTP_STATUS_BAD_REQUEST) m"
    by (simp add: validateErrorResponse_def)
  have ok_result: "fst (validateResponse r testName None m)
       = Inr (status r = 200 \<and> duration (timings r) < 500
              \<and> body r \<noteq> BodyNull \<and> body r \<noteq> BodyText [])"
    by (simp add: validateResponse_unfold Let_def)
  have ok_checks: "check_samples (snd (snd (validateResponse r testName None m)))
       = [(testName @ lit '': status is 200'', status r = 200),
          (testName @ lit '': response time < 500ms'', duration (timings r) < 500),
          (testName @ lit '': response has body'',
             body r \<noteq> BodyNull \<and> body r \<noteq> BodyText [])]"
    by (simp add: validateResponse_unfold Let_def logFailure_line n200)
  have bad_result: "fst (validateErrorResponse r testName None m)
       = Inr (status r = 400 \<and> has_error_indicator (body r))"
    by (simp add: validateErrorResponse_unfold Let_def)
  have bad_checks: "check_samples (snd (snd (validateErrorResponse r testName None m)))
       = [(testName @ lit '': status is 400'', status r = 400),
          (testName @ lit '': has error message'', has_error_indicator (body r))]"
    by (simp add: validateErrorResponse_unfold Let_def n400)
  show ?thesis
    using codes same_ok same_bad ok_result ok_checks bad_result bad_checks
    by (intro conjI)
qed

text \<open>With the argument omitted, a response with status 404 fails the happy-path
  validator and one with status 401 fails the error validator, although both have a
  body that passes the other checks; status 200 and status 400 pass.\<close>

theorem default_expected_status_witness:
  "fst (validateResponse
          \<lparr>status = 404, body = BodyText (lit ''ok''), timings = \<lparr>duration = 80\<rparr>\<rparr>
          (lit ''Login'') None
          \<lparr>errorRate = [], successRate = [], apiDuration = [], failedRequests = []\<rparr>)
     = Inr False
   \<and> fst (validateResponse
          \<lparr>status = 200, body = BodyText (lit ''ok''), timings = \<lparr>duration = 80\<rparr>\<rparr>
          (lit ''Login'') None
          \<lparr>errorRate = [], successRate = [], apiDuration = [], failedRequests = []\<rparr>)
     = Inr True
   \<and> fst (validateErrorResponse
          \<lparr>status = 401, body = BodyText (lit ''{\"message\":\"Email in use\"}''),
           timings = \<lparr>duration = 80\<rparr>\<rparr>
          (lit ''Signup'') None
          \<lparr>errorRate = [], successRate = [], apiDuration = [], failedRequests = []\<rparr>)
     = Inr False
   \<and> fst (validateErrorResponse
          \<lparr>status = 400, body = BodyText (lit ''{\"message\":\"Email in use\"}''),
           timings = \<lparr>duration = 80\<rparr>\<rparr>
          (lit ''Signup'') None
          \<lparr>errorRate = [], successRate = [], apiDuration = [], failedRequests = []\<rparr>)
     = Inr True"
proof -
  have two: "lit ''ok'' \<noteq> []"
    by (simp add: lit_def)
  have "fst (validateResponse
          \<lparr>status = 404, body = BodyText (lit ''ok''), timings = \<lparr>duration = 80\<rparr>\<rparr>
          (lit ''Login'') None
          \<lparr>errorRate = [], successRate = [], apiDuration = [], failedRequests = []\<rparr>)
     = Inr (status \<lparr>status = 404, body = BodyText (lit ''ok''), timings = \<lparr>duration = 80\<rparr>\<rparr>
              = 200
            \<and> duration (timings
                  \<lparr>status = 404, body = BodyText (lit ''ok''), timings = \<lparr>duration = 80\<rparr>\<rparr>)
                < 500
            \<and> body \<lparr>status = 404, body = BodyText (lit ''ok''), timings = \<lparr>duration = 80\<rparr>\<rparr>
                \<noteq> BodyNull
            \<and> body \<lparr>status = 404, body = BodyText (lit ''ok''), timings = \<lparr>duration = 80\<rparr>\<rparr>
                \<noteq> BodyText [])"
    using default_expected_status by blast
  then have not_found: "fst (validateResponse
          \<lparr>status = 404, body = BodyText (lit ''ok''), timings = \<lparr>duration = 80\<rparr>\<rparr>
          (lit ''Login'') None
          \<lparr>errorRate = [], successRate = [], apiDuration = [], failedRequests = []\<rparr>)
     = Inr False"
    by simp
  have "fst (validateResponse
          \<lparr>status = 200, body = BodyText (lit ''ok''), timings = \<lparr>duration = 80\<rparr>\<rparr>
          (lit ''Login'') None
          \<lparr>errorRate = [], successRate = [], apiDuration = [], failedRequests = []\<rparr>)
     = Inr (status \<lparr>status = 200, body = BodyText (lit ''ok''), timings = \<lparr>duration = 80\<rparr>\<rparr>
              = 200
            \<and> duration (timings
                  \<lparr>status = 200, body = BodyText (lit ''ok''), timings = \<lparr>duration = 80\<rparr>\<rparr>)
                < 500
            \<and> body \<lparr>status = 200, body = BodyText (lit ''ok''), timings = \<lparr>duration = 80\<rparr>\<rparr>
                \<noteq> BodyNull
            \<and> body \<lparr>status = 200, body = BodyText (lit ''ok''), timings = \<lparr>duration = 80\<rparr>\<rparr>
                \<noteq> BodyText [])"
    using default_expected_status by blast
  then have ok: "fst (validateResponse
          \<lparr>status = 200, body = BodyText (lit ''ok''), timings = \<lparr>duration = 80\<rparr>\<rparr>
          (lit ''Login'') None
          \<lparr>errorRate = [], successRate = [], apiDuration = [], failedRequests = []\<rparr>)
     = Inr True"
    by (simp add: two)
  have "fst (validateErrorResponse
          \<lparr>status = 401, body = BodyText (lit ''{\"message\":\"Email in use\"}''),
           timings = \<lparr>duration = 80\<rparr>\<rparr>
          (lit ''Signup'') None
          \<lparr>errorRate = [], successRate = [], apiDuration = [], failedRequests = []\<rparr>)
     = Inr (status \<lparr>status = 401, body = BodyText (lit ''{\"message\":\"Email in use\"}''),
                    timings = \<lparr>duration = 80\<rparr>\<rparr> = 400
            \<and> has_error_indicator
                (body \<lparr>status = 401, body = BodyText (lit ''{\"message\":\"Email in use\"}''),
                       timings = \<lparr>duration = 80\<rparr>\<rparr>))"
    using default_expected_status by blast
  then have unauthorized: "fst (validateErrorResponse
          \<lparr>status = 401, body = BodyText (lit ''{\"message\":\"Email in use\"}''),
           timings = \<lparr>duration = 80\<rparr>\<rparr>
          (lit ''Signup'') None
          \<lparr>errorRate = [], successRate = [], apiDuration = [], failedRequests = []\<rparr>)
     = Inr False"
    by simp
  have "fst (validateErrorResponse
          \<lparr>status = 400, body = BodyText (lit ''{\"message\":\"Email in use\"}''),
           timings = \<lparr>duration = 80\<rparr>\<rparr>
          (lit ''Signup'') None
          \<lparr>errorRate = [], successRate = [], apiDuration = [], failedRequests = []\<rparr>)
     = Inr (status \<lparr>status = 400, body = BodyText (lit ''{\"message\":\"Email in use\"}''),
                    timings = \<lparr>duration = 80\<rparr>\<rparr> = 400
            \<and> has_error_indicator
                (body \<lparr>status = 400, body = BodyText (lit ''{\"message\":\"Email in use\"}''),
                       timings = \<lparr>duration = 80\<rparr>\<rparr>))"
    using default_expected_status by blast
  then have bad_request: "fst (validateErrorResponse
          \<lparr>status = 400, body = BodyText (lit ''{\"message\":\"Email in use\"}''),
           timings = \<lparr>duration = 80\<rparr>\<rparr>
          (lit ''Signup'') None
          \<lparr>errorRate = [], successRate = [], apiDuration = [], failedRequests = []\<rparr>)
     = Inr True"
    by (simp add: has_error_indicator_message)
  show ?thesis
    using not_found ok unauthorized bad_request by (intro conjI)
qed

section \<open>The legacy helpers against the validators\<close>

text \<open>
  The failure log lines of \<open>checkResponse\<close> and \<open>validateResponse\<close> are not the
  same: for a response with status 404 and an empty body, checked against 200, the helper
  prints the cross mark and the message, and the validator prints the context tag
  \<open>[Validation]\<close> before them.
\<close>

theorem legacy_helpers_log_line_differs:
  "console_lines (snd (snd (checkResponse
       \<lparr>status = 404, body = BodyText [], timings = \<lparr>duration = 50\<rparr>\<rparr>
       (lit ''Login'') (Some 200)
       \<lparr>errorRate = [], successRate = [], apiDuration = [], failedRequests = []\<rparr>)))
     = [cross_mark @ lit '' Login failed: Status 404, Body: No body'']
   \<and> console_lines (snd (snd (validateResponse
       \<lparr>status = 404, body = BodyText [], timings = \<lparr>duration = 50\<rparr>\<rparr>
       (lit ''Login'') (Some 200)
       \<lparr>errorRate = [], successRate = [], apiDuration = [], failedRequests = []\<rparr>)))
     = [lit '' [Validation] '' @ cross_mark @ lit '' Login failed: Status 404, Body: No body'']
   \<and> checkResponse
       \<lparr>status = 404, body = BodyText [], timings = \<lparr>duration = 50\<rparr>\<rparr>
       (lit ''Login'') (Some 200)
       \<lparr>errorRate = [], successRate = [], apiDuration = [], failedRequests = []\<rparr>
     \<noteq> validateResponse
       \<lparr>status = 404, body = BodyText [], timings = \<lparr>duration = 50\<rparr>\<rparr>
       (lit ''Login'') (Some 200)
       \<lparr>errorRate = [], successRate = [], apiDuration = [], failedRequests = []\<rparr>"
  by (simp add: checkResponse_unfold validateResponse_unfold logFailure_line
      number_to_string_def decimal.simps lit_def cross_mark_def)

text \<open>
  C10, as amended. For every response, test name and expected status,
  \<open>checkErrorResponse\<close> and \<open>validateErrorResponse\<close> have the same result, the same
  named checks with the same outcomes and the same (absent) effect on the metrics;
  \<open>checkResponse\<close> and \<open>validateResponse\<close> have the same result, the same named
  checks with the same outcomes and the same updates to the error, success, duration and
  failed-request metrics; and the failure log line of \<open>validateResponse\<close> is that of
  \<open>checkResponse\<close> with the context tag \<open>[Validation]\<close> in front, so the
  message after the cross mark is the same.
\<close>

theorem legacy_helpers_equivalent_up_to_log_context:
  "checkErrorResponse r testName expectedStatus m
     = validateErrorResponse r testName expectedStatus m
   \<and> fst (checkResponse r testName expectedStatus m)
       = fst (validateResponse r testName expectedStatus m)
   \<and> fst (snd (checkResponse r testName expectedStatus m))
       = fst (snd (validateResponse r testName expectedStatus m))
   \<and> check_samples (snd (snd (checkResponse r testName expectedStatus m)))
       = check_samples (snd (snd (validateResponse r testName expectedStatus m)))
   \<and> map (with_context (lit ''Validation'')) (snd (snd (checkResponse r testName expectedStatus m)))
       = snd (snd (validateResponse r testName expectedStatus m))"
  unfolding checkErrorResponse_unfold validateErrorResponse_unfold
    checkResponse_unfold validateResponse_unfold logFailure_line Let_def
  by (simp add: lit_def)

theorem legacy_helpers_equivalent_up_to_log_context_witness:
  "map (with_context (lit ''Validation''))
       (snd (snd (checkResponse
          \<lparr>status = 404, body = BodyText [], timings = \<lparr>duration = 50\<rparr>\<rparr>
          (lit ''Login'') (Some 200)
          \<lparr>errorRate = [], successRate = [], apiDuration = [], failedRequests = []\<rparr>)))
     = snd (snd (validateResponse
          \<lparr>status = 404, body = BodyText [], timings = \<lparr>duration = 50\<rparr>\<rparr>
          (lit ''Login'') (Some 200)
          \<lparr>errorRate = [], successRate = [], apiDuration = [], failedRequests = []\<rparr>))"
  using legacy_helpers_equivalent_up_to_log_context
    [of "\<lparr>status = 404, body = BodyText [], timings = \<lparr>duration = 50\<rparr>\<rparr>"
        "lit ''Login''" "Some 200"
        "\<lparr>errorRate = [], successRate = [], apiDuration = [], failedRequests = []\<rparr>"]
  by blast

end
